theory Spec2Isabelle
  imports Main
begin

section \<open>Python values and exceptions\<close>

text \<open>
  The values the program builds: string literals, the integer literals \<^verbatim>\<open>80\<close> and
  \<^verbatim>\<open>200\<close>, dictionary literals with string keys, and the tuple of a view's
  \<^verbatim>\<open>return body, status\<close>. Strings are \<^typ>\<open>string\<close>: code points below 256.
\<close>

datatype pyval =
    PStr string
  | PInt int
  | PDict "(string \<times> pyval) list"
  | PTuple "pyval list"

datatype error = ValueError | TypeError | KeyError | NotFound | MethodNotAllowed

section \<open>Requests, responses and the process-wide state\<close>

text \<open>
  A request as the framework hands it to the application: its HTTP verb in upper case,
  the path used for routing, and the parts no view of this program reads.
\<close>

record request =
  http_method :: string
  path :: string
  query_string :: string
  headers :: "(string \<times> string) list"
  data :: string

text \<open>
  A response is its status code and its body. A body is text, a JSON document (kept as
  the value that was serialised), nothing, or the framework's default page for an error
  status.
\<close>

datatype payload = Text string | Json pyval | Empty | DefaultPage int

record response =
  status :: int
  payload :: payload

text \<open>
  The process-wide state: the address given to \<^verbatim>\<open>app.run(host='0.0.0.0', port=port)\<close>.
\<close>

record server =
  bind_host :: string
  bind_port :: int

text \<open>
  A view function is a Python function without parameters. While it runs it can reach
  the current request (the framework's request context) and the state of the process;
  it returns a value or raises an exception, and leaves a state behind.
\<close>

type_synonym view = "request \<Rightarrow> server \<Rightarrow> (error + pyval) \<times> server"

section \<open>Route registration\<close>

record rule =
  rule_path :: string
  methods :: "string list"
  endpoint :: string

text \<open>
  What \<^verbatim>\<open>@app.route(rule, methods=...)\<close> records for a view function: without
  \<^verbatim>\<open>methods\<close> the route answers \<^verbatim>\<open>GET\<close>; the framework adds
  \<^verbatim>\<open>OPTIONS\<close> (answered automatically) and, where \<^verbatim>\<open>GET\<close> is present,
  \<^verbatim>\<open>HEAD\<close>.
\<close>

definition add_url_rule :: "string \<Rightarrow> string \<Rightarrow> string list option \<Rightarrow> rule" where
  "add_url_rule r ep ms =
     (let m0 = (case ms of None \<Rightarrow> [''GET''] | Some l \<Rightarrow> l);
          m1 = (if ''OPTIONS'' \<in> set m0 then m0 else m0 @ [''OPTIONS'']);
          m2 = (if ''GET'' \<in> set m1 \<and> ''HEAD'' \<notin> set m1 then m1 @ [''HEAD''] else m1)
      in \<lparr>rule_path = r, methods = m2, endpoint = ep\<rparr>)"

section \<open>The application: src/app.py\<close>

text \<open>
  \<^verbatim>\<open>app = Flask(__name__)\<close>: besides creating the empty application, the constructor
  registers the framework's own rule for static files, \<^verbatim>\<open>/static/<path:filename>\<close>
  under the endpoint \<^verbatim>\<open>static\<close>, with the default methods.
\<close>

definition Flask :: "rule list" where
  "Flask = [add_url_rule ''/static/<path:filename>'' ''static'' None]"

text \<open>
  The view of that endpoint, \<^verbatim>\<open>send_static_file\<close>, looks the file up in the static
  folder of the application and raises \<^verbatim>\<open>NotFound\<close> when there is none. The
  repository has no static folder, so it finds no file, whatever the name.
\<close>

definition send_static_file :: view where
  "send_static_file req s = (Inl NotFound, s)"

text \<open>\<^verbatim>\<open>def hello(): return 'Hello, from Fincra!'\<close>\<close>

definition hello :: view where
  "hello req s = (Inr (PStr ''Hello, from Fincra!''), s)"

text \<open>\<^verbatim>\<open>def health(): return {'status': 'healthy'}, 200\<close>\<close>

definition health :: view where
  "health req s = (Inr (PTuple [PDict [(''status'', PStr ''healthy'')], PInt 200]), s)"

text \<open>\<^verbatim>\<open>def ready(): return {'status': 'ready'}, 200\<close>\<close>

definition ready :: view where
  "ready req s = (Inr (PTuple [PDict [(''status'', PStr ''ready'')], PInt 200]), s)"

text \<open>
  The rule of the constructor, then the three \<^verbatim>\<open>@app.route(...)\<close> decorators in
  source order. None of them passes \<^verbatim>\<open>methods=\<close>, and each registers the function
  under its own name.
\<close>

definition url_map :: "rule list" where
  "url_map =
     Flask @
     [add_url_rule ''/'' ''hello'' None,
      add_url_rule ''/health'' ''health'' None,
      add_url_rule ''/ready'' ''ready'' None]"

definition view_functions :: "string \<rightharpoonup> view" where
  "view_functions =
     map_of [(''static'', send_static_file),
             (''hello'', hello), (''health'', health), (''ready'', ready)]"

section \<open>Dispatching a request\<close>

text \<open>
  Modelled from the spec: the URL matcher is the web framework's, which is not part of
  the repository. The spec describes it as dispatching "to a handler based on exact path
  match": a rule without a variable part matches when its string equals the path of the
  request. The one rule with a variable part, the static rule, ends in a path converter,
  which stands for any non-empty rest of the path that does not begin with a slash. The
  first registered rule that matches is taken.
\<close>

fun rule_matches :: "string \<Rightarrow> string \<Rightarrow> bool" where
  "rule_matches [] p = (p = [])"
| "rule_matches (r # rs) p =
     (if r = CHR ''<'' then (case p of [] \<Rightarrow> False | c # cs \<Rightarrow> c \<noteq> CHR ''/'')
      else (case p of [] \<Rightarrow> False | c # cs \<Rightarrow> r = c \<and> rule_matches rs cs))"

definition match_rule :: "rule list \<Rightarrow> string \<Rightarrow> rule option" where
  "match_rule m p = find (\<lambda>r. rule_matches (rule_path r) p) m"

text \<open>
  The matcher is modelled for paths in normal form: a leading slash and no empty
  segment. For any other path (the empty path, doubled slashes) the framework
  normalises or redirects before or instead of matching, which is not modelled.
\<close>

fun no_empty_segment :: "string \<Rightarrow> bool" where
  "no_empty_segment [] = True"
| "no_empty_segment [c] = True"
| "no_empty_segment (c # d # cs) =
     (\<not> (c = CHR ''/'' \<and> d = CHR ''/'') \<and> no_empty_segment (d # cs))"

definition normal_path :: "string \<Rightarrow> bool" where
  "normal_path p = (take 1 p = ''/'' \<and> no_empty_segment p)"

text \<open>The framework's answer for an error status: that status with its default page.\<close>

definition abort :: "int \<Rightarrow> response" where
  "abort code = \<lparr>status = code, payload = DefaultPage code\<rparr>"

text \<open>
  An exception that leaves the dispatch: the two HTTP exceptions are answered with
  their status, any other exception with 500.
\<close>

fun handle_exception :: "error \<Rightarrow> response" where
  "handle_exception NotFound = abort 404"
| "handle_exception MethodNotAllowed = abort 405"
| "handle_exception _ = abort 500"

text \<open>
  How the framework turns the value a view returns into a response: a string is the
  body of a 200 response, a dictionary is serialised as JSON with status 200, and a pair
  \<^verbatim>\<open>(body, status)\<close> sets the status. The shapes this program does not return
  (tuples that carry headers, response objects) are not modelled and are reported as
  \<^const>\<open>TypeError\<close>, which is what the framework raises for a value it cannot convert.
\<close>

fun make_body :: "pyval \<Rightarrow> error + payload" where
  "make_body (PStr b) = Inr (Text b)"
| "make_body (PDict d) = Inr (Json (PDict d))"
| "make_body _ = Inl TypeError"

fun make_response :: "pyval \<Rightarrow> error + response" where
  "make_response (PTuple [b, PInt st]) =
     (case make_body b of Inl e \<Rightarrow> Inl e | Inr p \<Rightarrow> Inr \<lparr>status = st, payload = p\<rparr>)"
| "make_response (PTuple _) = Inl TypeError"
| "make_response v =
     (case make_body v of Inl e \<Rightarrow> Inl e | Inr p \<Rightarrow> Inr \<lparr>status = 200, payload = p\<rparr>)"

text \<open>
  One request through the routing and the view: no rule for the path raises
  \<^verbatim>\<open>NotFound\<close>; a rule that does not list the verb raises \<^verbatim>\<open>MethodNotAllowed\<close>;
  \<^verbatim>\<open>OPTIONS\<close> is answered by the framework without calling the view; otherwise the
  view registered for the endpoint runs and the value it returns is converted.
\<close>

definition dispatch_request :: "request \<Rightarrow> server \<Rightarrow> (error + response) \<times> server" where
  "dispatch_request req s =
     (case match_rule url_map (path req) of
        None \<Rightarrow> (Inl NotFound, s)
      | Some r \<Rightarrow>
          if http_method req \<notin> set (methods r) then (Inl MethodNotAllowed, s)
          else if http_method req = ''OPTIONS'' then (Inr \<lparr>status = 200, payload = Empty\<rparr>, s)
          else
            (case view_functions (endpoint r) of
               None \<Rightarrow> (Inl KeyError, s)
             | Some f \<Rightarrow>
                 (case f req s of
                    (Inl e, s') \<Rightarrow> (Inl e, s')
                  | (Inr rv, s') \<Rightarrow> (make_response rv, s'))))"

text \<open>The answer to \<^verbatim>\<open>HEAD\<close> is sent without its body, whatever its status.\<close>

definition wsgi_response :: "request \<Rightarrow> response \<Rightarrow> response" where
  "wsgi_response req resp =
     (if http_method req = ''HEAD'' then resp\<lparr>payload := Empty\<rparr> else resp)"

text \<open>The whole request: dispatch, exceptions turned into responses, the body sent.\<close>

definition full_dispatch_request :: "request \<Rightarrow> server \<Rightarrow> response \<times> server" where
  "full_dispatch_request req s =
     (case dispatch_request req s of
        (Inl e, s') \<Rightarrow> (wsgi_response req (handle_exception e), s')
      | (Inr resp, s') \<Rightarrow> (wsgi_response req resp, s'))"

text \<open>The requests of a process, one after the other, each starting from the state the
  one before left.\<close>

fun serve :: "server \<Rightarrow> request list \<Rightarrow> response list \<times> server" where
  "serve s [] = ([], s)"
| "serve s (req # reqs) =
     (case full_dispatch_request req s of
        (resp, s') \<Rightarrow> (case serve s' reqs of (resps, s'') \<Rightarrow> (resp # resps, s'')))"

text \<open>\<^verbatim>\<open>response.get_json()\<close>: the document of a JSON body, nothing for any other body.\<close>

fun get_json :: "response \<Rightarrow> pyval option" where
  "get_json resp = (case payload resp of Json v \<Rightarrow> Some v | _ \<Rightarrow> None)"

section \<open>Startup: the main block of src/app.py\<close>

text \<open>
  \<^verbatim>\<open>int(x)\<close> on a string, base 10, as CPython parses it: white space around the
  literal is skipped, one sign may come first, then digits, where a single underscore
  may stand between two digits. White space is the six ASCII characters \<^verbatim>\<open>\t \n \v \f \r\<close>
  and the blank, and the two space characters below code point 256 (133 and 160).
  Interpreters that limit the length of a converted numeral refuse more than
  \<^verbatim>\<open>max_str_digits\<close> digits once there are more than 640 of them; 0 means no limit.
  Every refusal is a \<^const>\<open>ValueError\<close>.
\<close>

definition is_space :: "char \<Rightarrow> bool" where
  "is_space c = ((of_char c :: nat) \<in> set [9, 10, 11, 12, 13, 32, 133, 160])"

definition is_digit :: "char \<Rightarrow> bool" where
  "is_digit c = (48 \<le> (of_char c :: nat) \<and> (of_char c :: nat) \<le> 57)"

definition digit_value :: "char \<Rightarrow> int" where
  "digit_value c = of_char c - 48"

definition decimal :: "string \<Rightarrow> int" where
  "decimal ds = foldl (\<lambda>a c. 10 * a + digit_value c) 0 ds"

text \<open>No underscore at the end and no two in a row.\<close>

fun underscores_ok :: "string \<Rightarrow> bool" where
  "underscores_ok [] = True"
| "underscores_ok [c] = (c \<noteq> CHR ''_'')"
| "underscores_ok (c # d # cs) =
     (\<not> (c = CHR ''_'' \<and> d = CHR ''_'') \<and> underscores_ok (d # cs))"

text \<open>
  The literal after white space and sign: \<^verbatim>\<open>body\<close> is its longest prefix of digits
  and underscores, \<^verbatim>\<open>rest\<close> what follows. The checks come in CPython's order.
\<close>

definition parse_literal :: "nat \<Rightarrow> bool \<Rightarrow> string \<Rightarrow> string \<Rightarrow> error + int" where
  "parse_literal max_str_digits neg body rest =
     (if take 1 body = ''_'' then Inl ValueError
      else if \<not> underscores_ok body then Inl ValueError
      else if 0 < max_str_digits \<and> 640 < length (filter is_digit body)
                \<and> max_str_digits < length (filter is_digit body)
        then Inl ValueError
      else if body = [] then Inl ValueError
      else if dropWhile is_space rest \<noteq> [] then Inl ValueError
      else Inr (if neg then - decimal (filter is_digit body)
                else decimal (filter is_digit body)))"

definition long_from_string :: "nat \<Rightarrow> string \<Rightarrow> error + int" where
  "long_from_string max_str_digits str =
     (let s1 = dropWhile is_space str;
          neg = (take 1 s1 = ''-'');
          s2 = (if take 1 s1 = ''+'' \<or> take 1 s1 = ''-'' then drop 1 s1 else s1)
      in parse_literal max_str_digits neg
           (takeWhile (\<lambda>c. is_digit c \<or> c = CHR ''_'') s2)
           (dropWhile (\<lambda>c. is_digit c \<or> c = CHR ''_'') s2))"

text \<open>\<^verbatim>\<open>int(x)\<close>: an integer is returned as it is, a string is parsed.\<close>

fun py_int :: "nat \<Rightarrow> pyval \<Rightarrow> error + int" where
  "py_int m (PInt n) = Inr n"
| "py_int m (PStr str) = long_from_string m str"
| "py_int m _ = Inl TypeError"

text \<open>\<^verbatim>\<open>os.environ.get(key, default)\<close>: the variable's string, or the default as given.\<close>

definition environ_get :: "(string \<rightharpoonup> string) \<Rightarrow> string \<Rightarrow> pyval \<Rightarrow> pyval" where
  "environ_get env key dflt = (case env key of None \<Rightarrow> dflt | Some v \<Rightarrow> PStr v)"

text \<open>
  The two statements under \<^verbatim>\<open>if __name__ == "__main__":\<close>. An exception of the first
  ends the program before \<^verbatim>\<open>app.run\<close> is reached; otherwise the result is the address
  \<^verbatim>\<open>app.run\<close> is asked to listen on. Whether the operating system grants that
  address is outside the model.
\<close>

definition main :: "nat \<Rightarrow> (string \<rightharpoonup> string) \<Rightarrow> error + server" where
  "main max_str_digits env =
     (case py_int max_str_digits (environ_get env ''PORT'' (PInt 80)) of
        Inl e \<Rightarrow> Inl e
      | Inr port \<Rightarrow> Inr \<lparr>bind_host = ''0.0.0.0'', bind_port = port\<rparr>)"

text \<open>Executing the module under a name: only \<^verbatim>\<open>__main__\<close> starts a server.\<close>

definition run_module :: "string \<Rightarrow> nat \<Rightarrow> (string \<rightharpoonup> string) \<Rightarrow> error + server option" where
  "run_module name max_str_digits env =
     (if name = ''__main__''
      then (case main max_str_digits env of Inl e \<Rightarrow> Inl e | Inr s \<Rightarrow> Inr (Some s))
      else Inr None)"

section \<open>The test client of src/test_app.py\<close>

text \<open>
  \<^verbatim>\<open>client.get(path)\<close> builds a \<^verbatim>\<open>GET\<close> request for the path with no query
  string, no headers of its own and an empty body; \<^verbatim>\<open>client.post(path)\<close> likewise.
\<close>

definition client_get :: "string \<Rightarrow> request" where
  "client_get p = \<lparr>http_method = ''GET'', path = p, query_string = '''', headers = [], data = ''''\<rparr>"

definition client_post :: "string \<Rightarrow> request" where
  "client_post p = \<lparr>http_method = ''POST'', path = p, query_string = '''', headers = [], data = ''''\<rparr>"

text \<open>The state of a process started without \<^verbatim>\<open>PORT\<close>.\<close>

definition default_server :: server where
  "default_server = \<lparr>bind_host = ''0.0.0.0'', bind_port = 80\<rparr>"

section \<open>Properties of routing and conversion\<close>

lemma default_methods: "methods (add_url_rule r ep None) = [''GET'', ''OPTIONS'', ''HEAD'']"
  by (simp add: add_url_rule_def)

lemma default_rule:
  "add_url_rule r ep None = \<lparr>rule_path = r, methods = [''GET'', ''OPTIONS'', ''HEAD''], endpoint = ep\<rparr>"
  by (simp add: add_url_rule_def)

lemma matches_root: "rule_matches ''/'' p = (p = ''/'')"
  by (auto split: list.splits)

lemma matches_health: "rule_matches ''/health'' p = (p = ''/health'')"
  by (auto split: list.splits)

lemma matches_ready: "rule_matches ''/ready'' p = (p = ''/ready'')"
  by (auto split: list.splits)

lemma matches_static:
  "rule_matches ''/static/<path:filename>'' p =
     (take 8 p = ''/static/'' \<and> drop 8 p \<noteq> [] \<and> take 1 (drop 8 p) \<noteq> ''/'')"
  by (auto split: list.splits)

lemma match_root: "match_rule url_map ''/'' = Some (add_url_rule ''/'' ''hello'' None)"
  by (simp add: match_rule_def url_map_def Flask_def default_rule)

lemma match_health: "match_rule url_map ''/health'' = Some (add_url_rule ''/health'' ''health'' None)"
  by (simp add: match_rule_def url_map_def Flask_def default_rule)

lemma match_ready: "match_rule url_map ''/ready'' = Some (add_url_rule ''/ready'' ''ready'' None)"
  by (simp add: match_rule_def url_map_def Flask_def default_rule)

lemma match_none:
  "p \<noteq> ''/'' \<Longrightarrow> p \<noteq> ''/health'' \<Longrightarrow> p \<noteq> ''/ready'' \<Longrightarrow> take 8 p \<noteq> ''/static/'' \<Longrightarrow>
   match_rule url_map p = None"
  by (simp add: match_rule_def url_map_def Flask_def default_rule
        matches_root matches_health matches_ready matches_static del: rule_matches.simps)

lemma match_some_methods:
  "match_rule url_map p = Some r \<Longrightarrow> methods r = [''GET'', ''OPTIONS'', ''HEAD'']"
  by (auto simp add: match_rule_def url_map_def Flask_def default_rule
        simp del: rule_matches.simps split: if_splits)

lemma view_state: "view_functions ep = Some f \<Longrightarrow> snd (f req s) = s"
  by (auto simp add: view_functions_def send_static_file_def hello_def health_def ready_def
        split: if_splits)

lemma view_value: "view_functions ep = Some f \<Longrightarrow> fst (f req s) = fst (f req' s')"
  by (auto simp add: view_functions_def send_static_file_def hello_def health_def ready_def
        split: if_splits)

lemma route_state: "snd (dispatch_request req s) = s"
proof (cases "match_rule url_map (path req)")
  case None
  then show ?thesis by (simp add: dispatch_request_def)
next
  case (Some r)
  show ?thesis
  proof (cases "view_functions (endpoint r)")
    case None
    with Some show ?thesis by (simp add: dispatch_request_def)
  next
    case (Some f)
    obtain rv s' where run: "f req s = (rv, s')" by (cases "f req s")
    with view_state [OF Some, of req s] have "s' = s" by simp
    with \<open>match_rule url_map (path req) = Some r\<close> Some run show ?thesis
      by (simp add: dispatch_request_def split: sum.splits)
  qed
qed

lemma route_reads:
  assumes "http_method r1 = http_method r2" and "path r1 = path r2"
  shows "fst (dispatch_request r1 s1) = fst (dispatch_request r2 s2)"
proof (cases "match_rule url_map (path r2)")
  case None
  with assms show ?thesis by (simp add: dispatch_request_def)
next
  case (Some r)
  show ?thesis
  proof (cases "view_functions (endpoint r)")
    case None
    with Some assms show ?thesis by (simp add: dispatch_request_def)
  next
    case (Some f)
    obtain v1 t1 where run1: "f r1 s1 = (v1, t1)" by (cases "f r1 s1")
    obtain v2 t2 where run2: "f r2 s2 = (v2, t2)" by (cases "f r2 s2")
    from view_value [OF Some, of r1 s1 r2 s2] run1 run2 have "v1 = v2" by simp
    with \<open>match_rule url_map (path r2) = Some r\<close> Some run1 run2 assms show ?thesis
      by (simp add: dispatch_request_def split: sum.splits)
  qed
qed

lemma dispatch_state: "snd (full_dispatch_request req s) = s"
proof -
  obtain res s' where run: "dispatch_request req s = (res, s')"
    by (cases "dispatch_request req s")
  with route_state [of req s] have "s' = s" by simp
  with run show ?thesis by (simp add: full_dispatch_request_def split: sum.splits)
qed

lemma dispatch_reads:
  assumes "http_method r1 = http_method r2" and "path r1 = path r2"
  shows "fst (full_dispatch_request r1 s1) = fst (full_dispatch_request r2 s2)"
proof -
  obtain a1 t1 where run1: "dispatch_request r1 s1 = (a1, t1)" by (cases "dispatch_request r1 s1")
  obtain a2 t2 where run2: "dispatch_request r2 s2 = (a2, t2)" by (cases "dispatch_request r2 s2")
  from route_reads [OF assms, of s1 s2] run1 run2 have "a1 = a2" by simp
  with run1 run2 assms(1) show ?thesis
    by (simp add: full_dispatch_request_def wsgi_response_def split: sum.splits)
qed

lemma serve_state: "snd (serve s reqs) = s"
proof (induction reqs)
  case Nil
  show ?case by simp
next
  case (Cons req reqs)
  have "snd (full_dispatch_request req s) = s" by (rule dispatch_state)
  with Cons show ?case by (simp split: prod.splits) (metis snd_conv)
qed

lemma serve_responses: "fst (serve s reqs) = map (\<lambda>req. fst (full_dispatch_request req s)) reqs"
proof (induction reqs)
  case Nil
  show ?case by simp
next
  case (Cons req reqs)
  have "snd (full_dispatch_request req s) = s" by (rule dispatch_state)
  with Cons show ?case by (auto split: prod.splits)
qed

section \<open>Properties of the integer conversion\<close>

lemma parse_literal_cases:
  "parse_literal m neg body rest = Inl ValueError \<or> (\<exists>n. parse_literal m neg body rest = Inr n)"
  by (simp add: parse_literal_def)

lemma long_from_string_cases:
  "long_from_string m str = Inl ValueError \<or> (\<exists>n. long_from_string m str = Inr n)"
  unfolding long_from_string_def Let_def by (rule parse_literal_cases)

text \<open>A plain decimal numeral of at most 640 digits is accepted and denotes its value.\<close>

lemma digits_parse:
  assumes "str \<noteq> []" and "\<forall>c \<in> set str. is_digit c" and "length str \<le> 640"
  shows "long_from_string m str = Inr (decimal str)"
proof -
  obtain c cs where str: "str = c # cs" using assms(1) by (cases str) auto
  have c: "is_digit c" using assms(2) str by simp
  have nosp: "\<not> is_space c" using c by (auto simp add: is_digit_def is_space_def)
  have nosign: "c \<noteq> CHR ''+''" "c \<noteq> CHR ''-''" "c \<noteq> CHR ''_''"
    using c by (auto simp add: is_digit_def)
  have tw: "takeWhile (\<lambda>c. is_digit c \<or> c = CHR ''_'') str = str"
    using assms(2) by (simp add: takeWhile_eq_all_conv)
  have dw: "dropWhile (\<lambda>c. is_digit c \<or> c = CHR ''_'') str = []"
    using assms(2) by simp
  have flt: "filter is_digit str = str" using assms(2) by simp
  have us: "underscores_ok xs" if "\<forall>c \<in> set xs. c \<noteq> CHR ''_''" for xs
    using that by (induction xs rule: underscores_ok.induct) auto
  have "\<forall>c \<in> set str. c \<noteq> CHR ''_''"
    using assms(2) by (auto simp add: is_digit_def)
  then have ok: "underscores_ok str" by (rule us)
  have s1: "dropWhile is_space str = str" using nosp str by simp
  have t1: "take (Suc 0) str = [c]" using str by simp
  have lit: "parse_literal m False str [] = Inr (decimal str)"
    using nosign assms(1,3) ok by (simp add: parse_literal_def flt t1)
  have "long_from_string m str = parse_literal m False str []"
    using nosign by (simp add: long_from_string_def Let_def s1 t1 tw dw)
  with lit show ?thesis by simp
qed

section \<open>The routes\<close>

text \<open>
  Claim C1. For every \<^verbatim>\<open>GET\<close> request with path \<^verbatim>\<open>/\<close>, whatever its query string,
  headers and body and whatever the state of the process, the response has status 200
  and its body is the text \<^verbatim>\<open>Hello, from Fincra!\<close>.
\<close>

theorem hello_get:
  "http_method req = ''GET'' \<Longrightarrow> path req = ''/'' \<Longrightarrow>
   fst (full_dispatch_request req s) = \<lparr>status = 200, payload = Text ''Hello, from Fincra!''\<rparr>"
  by (simp add: full_dispatch_request_def dispatch_request_def wsgi_response_def
        match_root default_rule view_functions_def hello_def)

theorem hello_get_witness:
  "http_method (client_get ''/'') = ''GET'' \<and> path (client_get ''/'') = ''/'' \<and>
   fst (full_dispatch_request (client_get ''/'') default_server) =
     \<lparr>status = 200, payload = Text ''Hello, from Fincra!''\<rparr>"
  using hello_get [of "client_get ''/''" default_server]
  by (simp add: client_get_def)

text \<open>
  Claim C2. For every \<^verbatim>\<open>GET\<close> request with path \<^verbatim>\<open>/health\<close> the response has
  status 200 and its body is the JSON object \<^verbatim>\<open>{"status": "healthy"}\<close>.
\<close>

theorem health_get:
  "http_method req = ''GET'' \<Longrightarrow> path req = ''/health'' \<Longrightarrow>
   status (fst (full_dispatch_request req s)) = 200 \<and>
   get_json (fst (full_dispatch_request req s)) = Some (PDict [(''status'', PStr ''healthy'')])"
  by (simp add: full_dispatch_request_def dispatch_request_def wsgi_response_def
        match_health default_rule view_functions_def health_def)

theorem health_get_witness:
  "http_method (client_get ''/health'') = ''GET'' \<and> path (client_get ''/health'') = ''/health'' \<and>
   status (fst (full_dispatch_request (client_get ''/health'') default_server)) = 200 \<and>
   get_json (fst (full_dispatch_request (client_get ''/health'') default_server)) =
     Some (PDict [(''status'', PStr ''healthy'')])"
  using health_get [of "client_get ''/health''" default_server]
  by (simp add: client_get_def)

text \<open>
  Claim C3. For every \<^verbatim>\<open>GET\<close> request with path \<^verbatim>\<open>/ready\<close> the response has
  status 200 and its body is the JSON object \<^verbatim>\<open>{"status": "ready"}\<close>.
\<close>

theorem ready_get:
  "http_method req = ''GET'' \<Longrightarrow> path req = ''/ready'' \<Longrightarrow>
   status (fst (full_dispatch_request req s)) = 200 \<and>
   get_json (fst (full_dispatch_request req s)) = Some (PDict [(''status'', PStr ''ready'')])"
  by (simp add: full_dispatch_request_def dispatch_request_def wsgi_response_def
        match_ready default_rule view_functions_def ready_def)

theorem ready_get_witness:
  "http_method (client_get ''/ready'') = ''GET'' \<and> path (client_get ''/ready'') = ''/ready'' \<and>
   status (fst (full_dispatch_request (client_get ''/ready'') default_server)) = 200 \<and>
   get_json (fst (full_dispatch_request (client_get ''/ready'') default_server)) =
     Some (PDict [(''status'', PStr ''ready'')])"
  using ready_get [of "client_get ''/ready''" default_server]
  by (simp add: client_get_def)

text \<open>
  Claim C4, as stated, does not hold: the path \<^verbatim>\<open>/static/x\<close> is none of the three
  routes, yet a \<^verbatim>\<open>POST\<close> to it is answered with 405, since the constructor of the
  application registered the static rule for that path.
\<close>

theorem static_post_is_405:
  "path (client_post ''/static/x'') \<notin> {''/'', ''/health'', ''/ready''} \<and>
   fst (full_dispatch_request (client_post ''/static/x'') default_server) =
     \<lparr>status = 405, payload = DefaultPage 405\<rparr>"
  by (simp add: client_post_def full_dispatch_request_def dispatch_request_def
        wsgi_response_def match_rule_def url_map_def Flask_def default_rule abort_def)

text \<open>
  Claim C4, amended. A request whose path is in normal form, is none of \<^verbatim>\<open>/\<close>,
  \<^verbatim>\<open>/health\<close> and \<^verbatim>\<open>/ready\<close> and does not lie under \<^verbatim>\<open>/static/\<close> is answered,
  whatever its method, with status 404 and the framework's default page for that
  status; the answer to \<^verbatim>\<open>HEAD\<close> has the status and no body.
\<close>

theorem unknown_path_404:
  "normal_path (path req) \<Longrightarrow> path req \<notin> {''/'', ''/health'', ''/ready''} \<Longrightarrow>
   take 8 (path req) \<noteq> ''/static/'' \<Longrightarrow>
   fst (full_dispatch_request req s) =
     \<lparr>status = 404,
      payload = (if http_method req = ''HEAD'' then Empty else DefaultPage 404)\<rparr>"
  by (simp add: full_dispatch_request_def dispatch_request_def wsgi_response_def
        match_none abort_def)

theorem unknown_path_404_witness:
  "normal_path (path (client_get ''/nonexistent'')) \<and>
   path (client_get ''/nonexistent'') \<notin> {''/'', ''/health'', ''/ready''} \<and>
   take 8 (path (client_get ''/nonexistent'')) \<noteq> ''/static/'' \<and>
   fst (full_dispatch_request (client_get ''/nonexistent'') default_server) =
     \<lparr>status = 404, payload = DefaultPage 404\<rparr> \<and>
   fst (full_dispatch_request (client_post ''/nonexistent'') default_server) =
     \<lparr>status = 404, payload = DefaultPage 404\<rparr>"
  using unknown_path_404 [of "client_get ''/nonexistent''" default_server]
    unknown_path_404 [of "client_post ''/nonexistent''" default_server]
  by (simp add: client_get_def client_post_def normal_path_def)

text \<open>
  Claim C9. A request to one of the three registered paths with a method other than
  \<^verbatim>\<open>GET\<close>, \<^verbatim>\<open>HEAD\<close> and \<^verbatim>\<open>OPTIONS\<close> is answered with status 405 and its default
  page: neither 404 nor 200.
\<close>

theorem other_method_405:
  "path req \<in> {''/'', ''/health'', ''/ready''} \<Longrightarrow>
   http_method req \<notin> {''GET'', ''HEAD'', ''OPTIONS''} \<Longrightarrow>
   fst (full_dispatch_request req s) = \<lparr>status = 405, payload = DefaultPage 405\<rparr>"
  by (auto simp add: full_dispatch_request_def dispatch_request_def wsgi_response_def
        match_root match_health match_ready default_rule abort_def)

theorem other_method_405_witness:
  "path (client_post ''/'') \<in> {''/'', ''/health'', ''/ready''} \<and>
   http_method (client_post ''/'') \<notin> {''GET'', ''HEAD'', ''OPTIONS''} \<and>
   fst (full_dispatch_request (client_post ''/'') default_server) =
     \<lparr>status = 405, payload = DefaultPage 405\<rparr>"
  using other_method_405 [of "client_post ''/''" default_server]
  by (simp add: client_post_def)

section \<open>Requests do not interfere\<close>

text \<open>
  Claim C7. Two requests with the same method and the same path receive the same
  response (status and body), however they differ in query string, headers and body.
\<close>

theorem same_route_same_response:
  "http_method r1 = http_method r2 \<Longrightarrow> path r1 = path r2 \<Longrightarrow>
   fst (full_dispatch_request r1 s) = fst (full_dispatch_request r2 s)"
  by (rule dispatch_reads)

theorem same_route_same_response_witness:
  "client_get ''/health'' \<noteq>
     \<lparr>http_method = ''GET'', path = ''/health'', query_string = ''verbose=1'',
      headers = [(''X-Debug'', ''1'')], data = ''{}''\<rparr> \<and>
   fst (full_dispatch_request (client_get ''/health'') default_server) =
   fst (full_dispatch_request
     \<lparr>http_method = ''GET'', path = ''/health'', query_string = ''verbose=1'',
      headers = [(''X-Debug'', ''1'')], data = ''{}''\<rparr> default_server)"
  using same_route_same_response [of "client_get ''/health''"
    "\<lparr>http_method = ''GET'', path = ''/health'', query_string = ''verbose=1'',
      headers = [(''X-Debug'', ''1'')], data = ''{}''\<rparr>" default_server]
  by (simp add: client_get_def)

text \<open>
  Claim C8. Handling a request leaves the process-wide state (the address the server
  listens on) as it was, and so does handling any sequence of requests.
\<close>

theorem request_leaves_state:
  "snd (full_dispatch_request req s) = s \<and> snd (serve s reqs) = s"
  by (simp add: dispatch_state serve_state)

theorem request_leaves_state_witness:
  "snd (full_dispatch_request (client_post ''/ready'') default_server) = default_server \<and>
   snd (serve default_server [client_get ''/'', client_get ''/nonexistent'', client_post ''/health''])
     = default_server"
  using request_leaves_state [of "client_post ''/ready''" default_server
    "[client_get ''/'', client_get ''/nonexistent'', client_post ''/health'']"]
  by simp

text \<open>
  Claim C6. When a request to one of the three registered paths is issued twice in the
  life of a process, with any requests before, between and after, both responses are
  equal, and equal to the response the request gets on its own.
\<close>

theorem repeated_request_same_response:
  assumes "path req \<in> {''/'', ''/health'', ''/ready''}"
  shows "fst (serve s (before @ req # between @ req # after)) ! length before =
           fst (full_dispatch_request req s) \<and>
         fst (serve s (before @ req # between @ req # after)) ! (length before + 1 + length between) =
           fst (full_dispatch_request req s)"
  by (simp add: serve_responses nth_append)

theorem repeated_request_same_response_witness:
  "path (client_get ''/health'') \<in> {''/'', ''/health'', ''/ready''} \<and>
   fst (serve default_server
          [client_post ''/'', client_get ''/health'', client_get ''/'', client_get ''/x'',
           client_get ''/health'', client_get ''/ready'']) ! 1 =
     fst (full_dispatch_request (client_get ''/health'') default_server) \<and>
   fst (serve default_server
          [client_post ''/'', client_get ''/health'', client_get ''/'', client_get ''/x'',
           client_get ''/health'', client_get ''/ready'']) ! 4 =
     fst (full_dispatch_request (client_get ''/health'') default_server)"
proof -
  have p: "path (client_get ''/health'') \<in> {''/'', ''/health'', ''/ready''}"
    by (simp add: client_get_def)
  from repeated_request_same_response [OF p, of default_server "[client_post ''/'']"
      "[client_get ''/'', client_get ''/x'']" "[client_get ''/ready'']"] p
  show ?thesis by (simp del: serve.simps add: eval_nat_numeral)
qed

section \<open>Startup\<close>

text \<open>
  Claim C5. Run as the main program with \<^verbatim>\<open>PORT\<close> unset, the server is started on
  port 80; with \<^verbatim>\<open>PORT\<close> set to a string that \<^verbatim>\<open>int\<close> accepts, it is started on
  the integer that string denotes. The host is \<^verbatim>\<open>0.0.0.0\<close> in both cases.
\<close>

theorem port_selection:
  "(env ''PORT'' = None \<longrightarrow>
      run_module ''__main__'' m env = Inr (Some \<lparr>bind_host = ''0.0.0.0'', bind_port = 80\<rparr>)) \<and>
   (\<forall>str n. env ''PORT'' = Some str \<and> py_int m (PStr str) = Inr n \<longrightarrow>
      run_module ''__main__'' m env = Inr (Some \<lparr>bind_host = ''0.0.0.0'', bind_port = n\<rparr>))"
  by (simp add: run_module_def main_def environ_get_def)

theorem port_selection_witness:
  "run_module ''__main__'' 4300 Map.empty = Inr (Some \<lparr>bind_host = ''0.0.0.0'', bind_port = 80\<rparr>) \<and>
   py_int 4300 (PStr ''8080'') = Inr 8080 \<and>
   run_module ''__main__'' 4300 [''PORT'' \<mapsto> ''8080''] =
     Inr (Some \<lparr>bind_host = ''0.0.0.0'', bind_port = 8080\<rparr>)"
proof -
  have v: "py_int 4300 (PStr ''8080'') = Inr 8080" by code_simp
  show ?thesis
    using v port_selection [of Map.empty 4300] port_selection [of "[''PORT'' \<mapsto> ''8080'']" 4300]
    by simp
qed

text \<open>
  Claim C10. Run as the main program with \<^verbatim>\<open>PORT\<close> set to a string that \<^verbatim>\<open>int\<close>
  does not accept, startup ends with \<^verbatim>\<open>ValueError\<close>: no server is started, on port 80
  or on any other.
\<close>

theorem invalid_port_raises:
  "env ''PORT'' = Some str \<Longrightarrow> \<forall>n. py_int m (PStr str) \<noteq> Inr n \<Longrightarrow>
   run_module ''__main__'' m env = Inl ValueError"
  using long_from_string_cases [of m str]
  by (auto simp add: run_module_def main_def environ_get_def)

theorem invalid_port_raises_witness:
  "[''PORT'' \<mapsto> ''http''] ''PORT'' = Some ''http'' \<and>
   (\<forall>n. py_int 4300 (PStr ''http'') \<noteq> Inr n) \<and>
   run_module ''__main__'' 4300 [''PORT'' \<mapsto> ''http''] = Inl ValueError"
proof -
  have v: "py_int 4300 (PStr ''http'') = Inl ValueError" by code_simp
  then have bad: "\<forall>n. py_int 4300 (PStr ''http'') \<noteq> Inr n" by simp
  have env: "[''PORT'' \<mapsto> ''http''] ''PORT'' = Some ''http''" by simp
  from invalid_port_raises [where env = "[''PORT'' \<mapsto> ''http'']" and str = "''http''" and m = 4300, OF env bad]
    env bad show ?thesis by simp
qed

end
